theory Spec2Isabelle
  imports Main
begin

section \<open>The news pipeline of fin-thread: data model\<close>

text \<open>
  The development follows \<^verbatim>\<open>src/job.go\<close> (the job that fetches, deduplicates,
  composes, saves, publishes and updates news) and \<^verbatim>\<open>src/composer/composer.go\<close>
  (the composer that asks the language model for texts and tags).

  The packages the job talks to (journalist, archivist, publisher, the OpenAI client,
  encoding/json, the clock) are not part of the sources. They are parameters of the model:
  each call takes the state of the outside world \<open>'w\<close> and returns its result with the
  new world. Every call the code makes is also written to a list of events, in the order
  of the calls, so that statements about which calls a run makes can be read off the
  result.
\<close>

subsection \<open>Values\<close>

text \<open>
  A \<^verbatim>\<open>time.Time\<close>, reduced to its calendar date and the time of day.
  \<^verbatim>\<open>t.Day()\<close> of Go is the day of the month, the field \<open>Day\<close>.
\<close>

record gotime =
  Year :: int
  Month :: nat
  Day :: nat
  Nanos :: nat

definition zero_time :: gotime where
  "zero_time = \<lparr>Year = 1, Month = 1, Day = 1, Nanos = 0\<rparr>"

text \<open>\<^verbatim>\<open>journalist.News\<close>, with the fields the job and the composer read.\<close>

record News =
  ID :: string
  ProviderName :: string
  Title :: string
  Description :: string
  Date :: gotime
  Link :: string
  IsSuspicious :: bool

text \<open>\<^verbatim>\<open>composer.ComposedNews\<close> (composer.go, lines 79 to 85).\<close>

record ComposedNews =
  cID :: string
  Text :: string
  Tickers :: "string list"
  Markets :: "string list"
  Hashtags :: "string list"

text \<open>
  The anonymous struct that saveNews serialises and publish decodes
  (job.go, lines 261 to 269 and 305 to 309).
\<close>

record meta =
  mTickers :: "string list"
  mMarkets :: "string list"
  mHashtags :: "string list"

text \<open>
  \<^verbatim>\<open>models.News\<close>, the database entity, with the fields the job writes and reads.
  \<open>MetaData\<close> is a byte slice in Go: \<open>None\<close> is the nil slice a record keeps when
  nothing was attached. The zero values of the other fields are the empty string and
  \<open>zero_time\<close>.
\<close>

record DBNews =
  Hash :: string
  ChannelID :: string
  dbProviderName :: string
  OriginalTitle :: string
  OriginalDesc :: string
  OriginalDate :: gotime
  URL :: string
  dbIsSuspicious :: bool
  ComposedText :: string
  MetaData :: "string option"
  PublicationID :: string
  PublishedAt :: gotime

text \<open>\<^verbatim>\<open>JobData\<close> (job.go, lines 367 to 372). A composed item is a pointer that the
  JSON decoder may leave nil: \<open>None\<close>.\<close>

record JobData =
  jdNews :: "News list"
  jdComposedNews :: "ComposedNews option list"

text \<open>The request and the response of the chat completion, as far as Compose uses them.\<close>

record ChatCompletionRequest =
  Model :: string
  Messages :: "(string \<times> string) list"
  Temperature :: nat
  MaxTokens :: nat
  TopP :: nat
  FrequencyPenalty :: nat
  PresencePenalty :: nat

record ChatCompletionResponse =
  Choices :: "string list"

subsection \<open>Errors\<close>

text \<open>
  A Go error is its message. A panic (an index out of range, a nil pointer) is kept
  apart from an error a function returns: no caller in these files recovers from it.
\<close>

datatype fault = Error string | Panic string

subsection \<open>Events\<close>

datatype event =
    EvGetLatestNews gotime
  | EvFindAllByHashes "string list"
  | EvCompose "News list"
  | EvChatCompletion ChatCompletionRequest
  | EvCreate DBNews "string option"
  | EvPublish string "string + string"
  | EvUpdate DBNews "string option"
  | EvLogInfo string string
  | EvLogWarn string string
  | EvCaptureException string

fun is_FindAllByHashes :: "event \<Rightarrow> bool" where
  "is_FindAllByHashes (EvFindAllByHashes _) = True"
| "is_FindAllByHashes _ = False"

fun is_Compose :: "event \<Rightarrow> bool" where
  "is_Compose (EvCompose _) = True"
| "is_Compose (EvChatCompletion _) = True"
| "is_Compose _ = False"

fun is_Create :: "event \<Rightarrow> bool" where
  "is_Create (EvCreate _ _) = True"
| "is_Create _ = False"

fun is_Publish :: "event \<Rightarrow> bool" where
  "is_Publish (EvPublish _ _) = True"
| "is_Publish _ = False"

fun is_Update :: "event \<Rightarrow> bool" where
  "is_Update (EvUpdate _ _) = True"
| "is_Update _ = False"

subsection \<open>The collaborators\<close>

text \<open>
  The journalist: \<^verbatim>\<open>GetLatestNews(ctx, until)\<close> returns a list of news and an error,
  both at once (job.go, line 97).
\<close>

record 'w Journalist =
  Name :: string
  GetLatestNews :: "'w \<Rightarrow> gotime \<Rightarrow> (News list \<times> string option) \<times> 'w"

text \<open>
  The archivist's \<^verbatim>\<open>Entities.News\<close>. \<open>Create\<close> and \<open>Update\<close> return an error or
  nil; they are taken not to change the fields of the record that the job reads later.
\<close>

record 'w Archivist =
  FindAllByHashes :: "'w \<Rightarrow> string list \<Rightarrow> (string + DBNews list) \<times> 'w"
  Create :: "'w \<Rightarrow> DBNews \<Rightarrow> string option \<times> 'w"
  Update :: "'w \<Rightarrow> DBNews \<Rightarrow> string option \<times> 'w"

record 'w Publisher =
  pubChannelID :: string
  Publish :: "'w \<Rightarrow> string \<Rightarrow> (string + string) \<times> 'w"

text \<open>
  The composer (composer.go, lines 19 to 22): the OpenAI client and the prompt of its
  configuration.
\<close>

record 'w Composer =
  CreateChatCompletion ::
    "'w \<Rightarrow> ChatCompletionRequest \<Rightarrow> (string + ChatCompletionResponse) \<times> 'w"
  ComposePrompt :: string

text \<open>
  The library functions the code calls: the clock, \<^verbatim>\<open>NewsList.ToContentJSON\<close>, and
  encoding/json on the two types it is used at. \<open>decode_meta\<close> is the decoder on a
  non-empty input; the empty input is handled in \<open>json_Unmarshal_meta\<close> below.
\<close>

record 'w Runtime =
  time_Now :: "'w \<Rightarrow> gotime"
  ToContentJSON :: "News list \<Rightarrow> string + string"
  json_Unmarshal_ComposedNews :: "string \<Rightarrow> string + ComposedNews option list"
  json_Marshal_meta :: "meta \<Rightarrow> string + string"
  decode_meta :: "string \<Rightarrow> string + meta"

record 'w App =
  composer :: "'w Composer"
  publisher :: "'w Publisher"
  archivist :: "'w Archivist"
  runtime :: "'w Runtime"

text \<open>The job (job.go, lines 19 to 28).\<close>

record 'w Job =
  app :: "'w App"
  journalist :: "'w Journalist"
  until :: gotime
  omitSuspicious :: bool
  omitEmptyMeta :: bool
  shouldComposeText :: bool
  shouldSaveToDB :: bool
  shouldRemoveClones :: bool

section \<open>The composer\<close>

definition OpenAI_request :: "string \<Rightarrow> string \<Rightarrow> ChatCompletionRequest" where
  "OpenAI_request prompt jsonNews =
     \<lparr>Model = ''gpt-3.5-turbo-1106'',
      Messages = [(''system'', prompt), (''user'', jsonNews)],
      Temperature = 1, MaxTokens = 2048, TopP = 1,
      FrequencyPenalty = 0, PresencePenalty = 0\<rparr>"

text \<open>
  Compose (composer.go, lines 28 to 77). The filter keeps a news item when the day of the
  month of its date is the day of the month of the clock. \<^verbatim>\<open>resp.Choices[0]\<close> panics
  on an empty list of choices. Go reads the clock once for every item; the model reads it
  in the same world each time, so the clock does not move while the filter runs.
\<close>

definition Compose ::
  "'w Composer \<Rightarrow> 'w Runtime \<Rightarrow> 'w \<Rightarrow> News list
     \<Rightarrow> (fault + ComposedNews option list) \<times> 'w \<times> event list" where
  "Compose c rt w news =
     (let todayNews = filter (\<lambda>n. Day (Date n) = Day (time_Now rt w)) news in
      if length todayNews = 0 then (Inr [], w, [])
      else
        case ToContentJSON rt todayNews of
          Inl err \<Rightarrow>
            (Inl (Error (''[Compose] error in NewsList.ToContentJSON: '' @ err)), w, [])
        | Inr jsonNews \<Rightarrow>
            (let req = OpenAI_request (ComposePrompt c) jsonNews in
             case CreateChatCompletion c w req of
               (Inl err, w') \<Rightarrow>
                 (Inl (Error (''[Compose] error in OpenAiClient.CreateChatCompletion: '' @ err)),
                  w', [EvChatCompletion req])
             | (Inr resp, w') \<Rightarrow>
                 (case Choices resp of
                    [] \<Rightarrow>
                      (Inl (Panic ''index out of range [0] with length 0''),
                       w', [EvChatCompletion req])
                  | content # _ \<Rightarrow>
                      (case json_Unmarshal_ComposedNews rt content of
                         Inl err \<Rightarrow>
                           (Inl (Error (''[Compose] error in json.Unmarshal: '' @ err
                                        @ '' for object: '' @ content)),
                            w', [EvChatCompletion req])
                       | Inr fullComposedNews \<Rightarrow>
                           (Inr fullComposedNews, w', [EvChatCompletion req])))))"

section \<open>The stages of the job\<close>

subsection \<open>removeDuplicates (job.go, lines 182 to 211)\<close>

fun uniqueNews_loop :: "string list \<Rightarrow> News list \<Rightarrow> News list \<Rightarrow> News list" where
  "uniqueNews_loop existedHashes [] uniqueNews = uniqueNews"
| "uniqueNews_loop existedHashes (n # ns) uniqueNews =
     uniqueNews_loop existedHashes ns
       (if \<not> List.member existedHashes (ID n) then uniqueNews @ [n] else uniqueNews)"

definition removeDuplicates ::
  "'w Job \<Rightarrow> 'w \<Rightarrow> News list \<Rightarrow> (fault + News list) \<times> 'w \<times> event list" where
  "removeDuplicates job w news =
     (if \<not> shouldRemoveClones job \<or> \<not> shouldSaveToDB job then (Inr news, w, [])
      else
        (let hashes = map ID news in
         case FindAllByHashes (archivist (app job)) w hashes of
           (Inl err, w') \<Rightarrow>
             (Inl (Error (''[Job.removeDuplicates][News.FindAllByHashes]: '' @ err)),
              w', [EvFindAllByHashes hashes])
         | (Inr exists, w') \<Rightarrow>
             (let existedHashes = map Hash exists in
              (Inr (uniqueNews_loop existedHashes news []), w', [EvFindAllByHashes hashes]))))"

subsection \<open>composeNews (job.go, lines 214 to 228)\<close>

definition composeNews ::
  "'w Job \<Rightarrow> 'w \<Rightarrow> News list \<Rightarrow> (fault + ComposedNews option list) \<times> 'w \<times> event list" where
  "composeNews job w news =
     (if \<not> shouldComposeText job then (Inr [], w, [])
      else
        case Compose (composer (app job)) (runtime (app job)) w news of
          (Inl (Error err), w', evs) \<Rightarrow>
            (Inl (Error (''[Job.composeNews][composer.Compose]: '' @ err)),
             w', EvCompose news # evs)
        | (Inl (Panic p), w', evs) \<Rightarrow> (Inl (Panic p), w', EvCompose news # evs)
        | (Inr composedNews, w', evs) \<Rightarrow> (Inr composedNews, w', EvCompose news # evs))"

subsection \<open>saveNews (job.go, lines 230 to 292)\<close>

text \<open>Lines 240 to 243: a later composed item with the same id replaces an earlier one;
  reading the id of a nil item panics.\<close>

fun composedNewsMap_loop ::
  "ComposedNews option list \<Rightarrow> (string \<rightharpoonup> ComposedNews)
     \<Rightarrow> fault + (string \<rightharpoonup> ComposedNews)" where
  "composedNewsMap_loop [] m = Inr m"
| "composedNewsMap_loop (None # ns) m =
     Inl (Panic ''invalid memory address or nil pointer dereference'')"
| "composedNewsMap_loop (Some n # ns) m = composedNewsMap_loop ns (m(cID n \<mapsto> n))"

text \<open>Lines 248 to 257: the record of a news item before anything is attached.\<close>

definition newDBNews :: "'w Job \<Rightarrow> News \<Rightarrow> DBNews" where
  "newDBNews job n =
     \<lparr>Hash = ID n,
      ChannelID = pubChannelID (publisher (app job)),
      dbProviderName = ProviderName n,
      OriginalTitle = Title n,
      OriginalDesc = Description n,
      OriginalDate = Date n,
      URL = Link n,
      dbIsSuspicious = IsSuspicious n,
      ComposedText = [],
      MetaData = None,
      PublicationID = [],
      PublishedAt = zero_time\<rparr>"

text \<open>Lines 246 to 277.\<close>

fun dbNews_loop ::
  "'w Job \<Rightarrow> (string \<rightharpoonup> ComposedNews) \<Rightarrow> News list \<Rightarrow> fault + DBNews list" where
  "dbNews_loop job composedNewsMap [] = Inr []"
| "dbNews_loop job composedNewsMap (n # ns) =
     (case composedNewsMap (ID n) of
        None \<Rightarrow>
          (case dbNews_loop job composedNewsMap ns of
             Inl f \<Rightarrow> Inl f
           | Inr rest \<Rightarrow> Inr (newDBNews job n # rest))
      | Some val \<Rightarrow>
          (case json_Marshal_meta (runtime (app job))
                  \<lparr>mTickers = Tickers val, mMarkets = Markets val, mHashtags = Hashtags val\<rparr> of
             Inl err \<Rightarrow> Inl (Error (''[Job.saveNews][json.Marshal] meta: '' @ err))
           | Inr bytes \<Rightarrow>
               (case dbNews_loop job composedNewsMap ns of
                  Inl f \<Rightarrow> Inl f
                | Inr rest \<Rightarrow>
                    Inr ((newDBNews job n)\<lparr>ComposedText := Text val, MetaData := Some bytes\<rparr>
                         # rest))))"

text \<open>Lines 280 to 289: one Create per record, in order, stopping at the first error.\<close>

fun create_loop ::
  "'w Job \<Rightarrow> 'w \<Rightarrow> DBNews list \<Rightarrow> string option \<times> 'w \<times> event list" where
  "create_loop job w [] = (None, w, [])"
| "create_loop job w (n # ns) =
     (case Create (archivist (app job)) w n of
        (Some err, w') \<Rightarrow>
          (Some (''[Job.saveNews][News.Create]: '' @ err), w', [EvCreate n (Some err)])
      | (None, w') \<Rightarrow>
          (case create_loop job w' ns of
             (r, w'', evs) \<Rightarrow> (r, w'', EvCreate n None # evs)))"

definition saveNews ::
  "'w Job \<Rightarrow> 'w \<Rightarrow> JobData \<Rightarrow> (fault + DBNews list) \<times> 'w \<times> event list" where
  "saveNews job w data =
     (if \<not> shouldSaveToDB job then (Inr [], w, [])
      else if length (jdNews data) < length (jdComposedNews data) then
        (Inl (Error ''[Job.saveNews]: Composed news count is more than original news count''),
         w, [])
      else
        case composedNewsMap_loop (jdComposedNews data) Map.empty of
          Inl f \<Rightarrow> (Inl f, w, [])
        | Inr composedNewsMap \<Rightarrow>
            (case dbNews_loop job composedNewsMap (jdNews data) of
               Inl f \<Rightarrow> (Inl f, w, [])
             | Inr dbNews \<Rightarrow>
                 (case create_loop job w dbNews of
                    (Some err, w', evs) \<Rightarrow> (Inl (Error err), w', evs)
                  | (None, w', evs) \<Rightarrow> (Inr dbNews, w', evs))))"

subsection \<open>publish (job.go, lines 295 to 345)\<close>

text \<open>
  \<^verbatim>\<open>json.Unmarshal(n.MetaData, &meta)\<close>: on a nil or empty input encoding/json reports
  a syntax error, "unexpected end of JSON input"; any other input goes to the decoder.
\<close>

definition json_Unmarshal_meta :: "'w Runtime \<Rightarrow> string option \<Rightarrow> string + meta" where
  "json_Unmarshal_meta rt data =
     (case data of
        None \<Rightarrow> Inl ''unexpected end of JSON input''
      | Some bytes \<Rightarrow>
          if bytes = [] then Inl ''unexpected end of JSON input'' else decode_meta rt bytes)"

definition MetaData_String :: "string option \<Rightarrow> string" where
  "MetaData_String data = (case data of None \<Rightarrow> [] | Some bytes \<Rightarrow> bytes)"

definition formatNews :: "'w Job \<Rightarrow> DBNews \<Rightarrow> string" where
  "formatNews job n =
     (if shouldComposeText job then
        ''Hash: '' @ Hash n @ [CHR 0x0A] @ ''Provider: '' @ dbProviderName n @ [CHR 0x0A]
        @ ''Meta: '' @ MetaData_String (MetaData n) @ [CHR 0x0A]
        @ ''IsSuspicious:'' @ (if dbIsSuspicious n then ''true'' else ''false'') @ [CHR 0x0A]
        @ '' '' @ ComposedText n
      else OriginalTitle n @ [CHR 0x0A] @ OriginalDesc n)"

text \<open>The body of the loop for one record: the record as the loop leaves it, or the
  error the function returns with.\<close>

definition publish_one ::
  "'w Job \<Rightarrow> 'w \<Rightarrow> DBNews \<Rightarrow> (fault + DBNews) \<times> 'w \<times> event list" where
  "publish_one job w n =
     (if dbIsSuspicious n \<and> omitSuspicious job then (Inr n, w, [])
      else
        case (if omitEmptyMeta job then
                (case json_Unmarshal_meta (runtime (app job)) (MetaData n) of
                   Inl err \<Rightarrow> Inl (''[Job.publish][json.Unmarshal] meta: '' @ err)
                 | Inr m \<Rightarrow>
                     Inr (length (mTickers m) = 0 \<and> length (mMarkets m) = 0
                          \<and> length (mHashtags m) = 0))
              else Inr False) of
          Inl err \<Rightarrow> (Inl (Error err), w, [])
        | Inr True \<Rightarrow> (Inr n, w, [])
        | Inr False \<Rightarrow>
            (let formattedText = formatNews job n in
             case Publish (publisher (app job)) w formattedText of
               (Inl err, w') \<Rightarrow>
                 (Inl (Error (''[Job.publish][publisher.Publish]: '' @ err)),
                  w', [EvPublish formattedText (Inl err)])
             | (Inr pid, w') \<Rightarrow>
                 (Inr (n\<lparr>PublicationID := pid, PublishedAt := time_Now (runtime (app job)) w'\<rparr>),
                  w', [EvPublish formattedText (Inr pid)])))"

fun publish ::
  "'w Job \<Rightarrow> 'w \<Rightarrow> DBNews list \<Rightarrow> (fault + DBNews list) \<times> 'w \<times> event list" where
  "publish job w [] = (Inr [], w, [])"
| "publish job w (n # ns) =
     (case publish_one job w n of
        (Inl f, w', evs) \<Rightarrow> (Inl f, w', evs)
      | (Inr n', w', evs) \<Rightarrow>
          (case publish job w' ns of
             (Inl f, w'', evs') \<Rightarrow> (Inl f, w'', evs @ evs')
           | (Inr ns', w'', evs') \<Rightarrow> (Inr (n' # ns'), w'', evs @ evs')))"

subsection \<open>updateNews (job.go, lines 348 to 365)\<close>

fun update_loop ::
  "'w Job \<Rightarrow> 'w \<Rightarrow> DBNews list \<Rightarrow> string option \<times> 'w \<times> event list" where
  "update_loop job w [] = (None, w, [])"
| "update_loop job w (n # ns) =
     (case Update (archivist (app job)) w n of
        (Some err, w') \<Rightarrow>
          (Some (''[Job.updateNews][News.Update]: '' @ err), w', [EvUpdate n (Some err)])
      | (None, w') \<Rightarrow>
          (case update_loop job w' ns of
             (r, w'', evs) \<Rightarrow> (r, w'', EvUpdate n None # evs)))"

definition updateNews ::
  "'w Job \<Rightarrow> 'w \<Rightarrow> DBNews list \<Rightarrow> string option \<times> 'w \<times> event list" where
  "updateNews job w dbNews =
     (if \<not> shouldSaveToDB job then (None, w, []) else update_loop job w dbNews)"

section \<open>The run\<close>

text \<open>
  Run (job.go, lines 76 to 179) returns nothing. The model returns how the run ended:
  at one of the two returns on an empty list (\<open>End_NoOp\<close>), at the return after the
  error of a stage was logged (\<open>End_Failed\<close>), by a panic, or at the end of the
  function (\<open>End_Success\<close>). The tracing calls (transaction, spans, breadcrumbs)
  change nothing in the flow and are left out; the logger and CaptureException are events.
  The timeout of the context (20 seconds) is not modelled: a collaborator that gives up
  returns an error like any other.
\<close>

datatype run_end = End_NoOp | End_Failed | End_Panic | End_Success

definition jobName :: "'w Job \<Rightarrow> string" where
  "jobName job = ''Run.'' @ Name (journalist job)"

definition log_tag :: "'w Job \<Rightarrow> string \<Rightarrow> string" where
  "log_tag job stage = ''['' @ jobName job @ ''][''  @ stage @ '']''"

text \<open>What a stage error does to the run: a returned error is logged and captured, and
  the run returns; a panic unwinds it.\<close>

definition stage_failed ::
  "'w Job \<Rightarrow> bool \<Rightarrow> string \<Rightarrow> fault \<Rightarrow> 'w \<Rightarrow> event list \<Rightarrow> run_end \<times> 'w \<times> event list" where
  "stage_failed job warn stage f w evs =
     (case f of
        Error err \<Rightarrow>
          (End_Failed, w,
           evs @ [(if warn then EvLogWarn else EvLogInfo) (log_tag job stage) err,
                  EvCaptureException err])
      | Panic p \<Rightarrow> (End_Panic, w, evs))"

definition Run :: "'w Job \<Rightarrow> 'w \<Rightarrow> run_end \<times> 'w \<times> event list" where
  "Run job w0 =
     (case GetLatestNews (journalist job) w0 (until job) of
        ((news, err), w1) \<Rightarrow>
          (let evs1 = EvGetLatestNews (until job) #
                 (case err of
                    None \<Rightarrow> []
                  | Some e \<Rightarrow> [EvLogInfo (log_tag job ''GetLatestNews'') e,
                                EvCaptureException e])
           in
           if length news = 0 then (End_NoOp, w1, evs1)
           else
             case removeDuplicates job w1 news of
               (Inl f, w2, evs2) \<Rightarrow>
                 stage_failed job False ''removeDuplicates'' f w2 (evs1 @ evs2)
             | (Inr uniqueNews, w2, evs2) \<Rightarrow>
                 if length uniqueNews = 0 then (End_NoOp, w2, evs1 @ evs2)
                 else
                   (case composeNews job w2 uniqueNews of
                     (Inl f, w3, evs3) \<Rightarrow>
                       stage_failed job True ''composeNews'' f w3 (evs1 @ evs2 @ evs3)
                   | (Inr composedNews, w3, evs3) \<Rightarrow>
                       (case saveNews job w3
                               \<lparr>jdNews = uniqueNews, jdComposedNews = composedNews\<rparr> of
                          (Inl f, w4, evs4) \<Rightarrow>
                            stage_failed job True ''saveNews'' f w4
                              (evs1 @ evs2 @ evs3 @ evs4)
                        | (Inr dbNews, w4, evs4) \<Rightarrow>
                            (case publish job w4 dbNews of
                               (Inl f, w5, evs5) \<Rightarrow>
                                 stage_failed job True ''publish'' f w5
                                   (evs1 @ evs2 @ evs3 @ evs4 @ evs5)
                             | (Inr dbNews', w5, evs5) \<Rightarrow>
                                 (case updateNews job w5 dbNews' of
                                    (Some e, w6, evs6) \<Rightarrow>
                                      stage_failed job True ''updateNews'' (Error e) w6
                                        (evs1 @ evs2 @ evs3 @ evs4 @ evs5 @ evs6)
                                  | (None, w6, evs6) \<Rightarrow>
                                      (End_Success, w6,
                                       evs1 @ evs2 @ evs3 @ evs4 @ evs5 @ evs6)))))))"

subsection \<open>A notion for the statements\<close>

text \<open>The same job with a journalist that returns the same news and the same world,
  and never an error. It is used to say what an error of the fetch changes in a run.\<close>

definition without_fetch_error :: "'w Job \<Rightarrow> 'w Job" where
  "without_fetch_error job =
     job\<lparr>journalist := (journalist job)\<lparr>GetLatestNews :=
       (\<lambda>w t. case GetLatestNews (journalist job) w t of
                 ((news, err), w') \<Rightarrow> ((news, None), w'))\<rparr>\<rparr>"

section \<open>A concrete job\<close>

text \<open>
  A small instance on which the statements below are also evaluated. The world is a
  counter of the calls to \<open>Create\<close>; \<open>demo_archivist stored k\<close> reports the hashes
  of \<open>stored\<close> as existing and fails the \<open>k\<close>-th Create (none for \<open>k = 0\<close>). The
  journalist returns three items, the second one suspicious; the language model returns
  texts for the first and the third, the third without any tag.
  The stand-in for encoding/json writes one letter per ticker, market and hashtag and a
  closing dot, and reads the letters back.
\<close>

definition demo_now :: gotime where
  "demo_now = \<lparr>Year = 2023, Month = 11, Day = 15, Nanos = 0\<rparr>"

definition demo_A :: News where
  "demo_A = \<lparr>ID = ''a1'', ProviderName = ''feed'', Title = ''Rates up'',
              Description = ''The bank raised rates'', Date = demo_now,
              Link = ''http://x/a'', IsSuspicious = False\<rparr>"

definition demo_B :: News where
  "demo_B = \<lparr>ID = ''b2'', ProviderName = ''feed'', Title = ''Buy now'',
              Description = ''Sign up today'', Date = demo_now,
              Link = ''http://x/b'', IsSuspicious = True\<rparr>"

definition demo_C :: News where
  "demo_C = \<lparr>ID = ''c3'', ProviderName = ''feed'', Title = ''Quiet day'',
              Description = ''Nothing moved'', Date = demo_now,
              Link = ''http://x/c'', IsSuspicious = False\<rparr>"

text \<open>An item of the same day of the month, one month earlier.\<close>

definition demo_old :: News where
  "demo_old = \<lparr>ID = ''o0'', ProviderName = ''feed'', Title = ''Last month'',
                Description = ''Old news'',
                Date = \<lparr>Year = 2023, Month = 10, Day = 15, Nanos = 0\<rparr>,
                Link = ''http://x/o'', IsSuspicious = False\<rparr>"

definition demo_composed_A :: ComposedNews where
  "demo_composed_A = \<lparr>cID = ''a1'', Text = ''Rates rise'', Tickers = [''SPY''],
                       Markets = [''US''], Hashtags = [''fed'']\<rparr>"

definition demo_composed_C :: ComposedNews where
  "demo_composed_C = \<lparr>cID = ''c3'', Text = ''Calm'', Tickers = [],
                       Markets = [], Hashtags = []\<rparr>"

definition demo_enc :: "meta \<Rightarrow> string" where
  "demo_enc m =
     map (\<lambda>x. CHR ''t'') (mTickers m) @ map (\<lambda>x. CHR ''m'') (mMarkets m)
     @ map (\<lambda>x. CHR ''h'') (mHashtags m) @ ''.''"

definition demo_runtime :: "nat Runtime" where
  "demo_runtime =
     \<lparr>time_Now = (\<lambda>w. demo_now),
      ToContentJSON = (\<lambda>ns. Inr (concat (map ID ns))),
      json_Unmarshal_ComposedNews = (\<lambda>s. Inr [Some demo_composed_A, Some demo_composed_C]),
      json_Marshal_meta = (\<lambda>m. Inr (demo_enc m)),
      decode_meta =
        (\<lambda>b. Inr \<lparr>mTickers = map (\<lambda>x. ''T'') (filter (\<lambda>c. c = CHR ''t'') b),
                   mMarkets = map (\<lambda>x. ''M'') (filter (\<lambda>c. c = CHR ''m'') b),
                   mHashtags = map (\<lambda>x. ''H'') (filter (\<lambda>c. c = CHR ''h'') b)\<rparr>)\<rparr>"

definition demo_stored :: "string \<Rightarrow> DBNews" where
  "demo_stored h =
     \<lparr>Hash = h, ChannelID = ''chan'', dbProviderName = ''feed'', OriginalTitle = [],
      OriginalDesc = [], OriginalDate = demo_now, URL = [], dbIsSuspicious = False,
      ComposedText = [], MetaData = None, PublicationID = ''old'', PublishedAt = demo_now\<rparr>"

definition demo_archivist :: "string list \<Rightarrow> nat \<Rightarrow> nat Archivist" where
  "demo_archivist stored k =
     \<lparr>FindAllByHashes =
        (\<lambda>w hashes. (Inr (map demo_stored (filter (\<lambda>h. List.member stored h) hashes)), w)),
      Create = (\<lambda>w n. (if Suc w = k then Some ''disk full'' else None, Suc w)),
      Update = (\<lambda>w n. (None, w))\<rparr>"

definition demo_app :: "string list \<Rightarrow> nat \<Rightarrow> nat App" where
  "demo_app stored k =
     \<lparr>composer = \<lparr>CreateChatCompletion = (\<lambda>w req. (Inr \<lparr>Choices = [''[...]'']\<rparr>, w)),
                  ComposePrompt = ''compose''\<rparr>,
      publisher = \<lparr>pubChannelID = ''chan'', Publish = (\<lambda>w t. (Inr ''msg'', w))\<rparr>,
      archivist = demo_archivist stored k,
      runtime = demo_runtime\<rparr>"

definition demo_journalist :: "News list \<Rightarrow> string option \<Rightarrow> nat Journalist" where
  "demo_journalist news err =
     \<lparr>Name = ''demo'', GetLatestNews = (\<lambda>w t. ((news, err), w))\<rparr>"

text \<open>The three records saveNews builds for the three items: the first with its text
  and tags, the second (suspicious) with nothing attached, the third with a text and no
  tag.\<close>

definition demo_dbA :: DBNews where
  "demo_dbA =
     \<lparr>Hash = ''a1'', ChannelID = ''chan'', dbProviderName = ''feed'',
      OriginalTitle = ''Rates up'', OriginalDesc = ''The bank raised rates'',
      OriginalDate = demo_now, URL = ''http://x/a'', dbIsSuspicious = False,
      ComposedText = ''Rates rise'', MetaData = Some ''tmh.'', PublicationID = [],
      PublishedAt = zero_time\<rparr>"

definition demo_dbB :: DBNews where
  "demo_dbB =
     \<lparr>Hash = ''b2'', ChannelID = ''chan'', dbProviderName = ''feed'',
      OriginalTitle = ''Buy now'', OriginalDesc = ''Sign up today'',
      OriginalDate = demo_now, URL = ''http://x/b'', dbIsSuspicious = True,
      ComposedText = [], MetaData = None, PublicationID = [],
      PublishedAt = zero_time\<rparr>"

definition demo_dbC :: DBNews where
  "demo_dbC =
     \<lparr>Hash = ''c3'', ChannelID = ''chan'', dbProviderName = ''feed'',
      OriginalTitle = ''Quiet day'', OriginalDesc = ''Nothing moved'',
      OriginalDate = demo_now, URL = ''http://x/c'', dbIsSuspicious = False,
      ComposedText = ''Calm'', MetaData = Some ''.'', PublicationID = [],
      PublishedAt = zero_time\<rparr>"

text \<open>A record as publish leaves it after a successful call.\<close>

definition demo_published :: "DBNews \<Rightarrow> DBNews" where
  "demo_published n = n\<lparr>PublicationID := ''msg'', PublishedAt := demo_now\<rparr>"

text \<open>The job with every option set, as \<^verbatim>\<open>NewJob(...)\<close> followed by all the setters
  builds it; \<open>stored\<close> are the hashes the database holds already, \<open>k\<close> is the Create
  call that fails.\<close>

definition demo_job :: "string list \<Rightarrow> nat \<Rightarrow> nat Job" where
  "demo_job stored k =
     \<lparr>app = demo_app stored k,
      journalist = demo_journalist [demo_A, demo_B, demo_C] None,
      until = demo_now,
      omitSuspicious = True, omitEmptyMeta = True, shouldComposeText = True,
      shouldSaveToDB = True, shouldRemoveClones = True\<rparr>"

section \<open>Facts about the loops\<close>

lemmas demo_defs = demo_job_def demo_app_def demo_archivist_def demo_journalist_def
  demo_runtime_def demo_enc_def demo_A_def demo_B_def demo_C_def demo_old_def
  demo_composed_A_def demo_composed_C_def demo_now_def demo_stored_def

lemmas demo_db_defs = demo_dbA_def demo_dbB_def demo_dbC_def demo_published_def zero_time_def

text \<open>The definitions of the stages, for evaluating a run on the concrete job.\<close>

lemmas stage_defs = Run_def removeDuplicates_def composeNews_def Compose_def
  OpenAI_request_def saveNews_def newDBNews_def updateNews_def publish_one_def
  formatNews_def MetaData_String_def json_Unmarshal_meta_def stage_failed_def
  log_tag_def jobName_def

lemma uniqueNews_loop_filter:
  "uniqueNews_loop existed news acc = acc @ filter (\<lambda>n. ID n \<notin> set existed) news"
  by (induction news arbitrary: acc) simp_all




text \<open>A successful run of the Create loop made one successful call per record, in order;
  a failure after successful calls ends the loop there.\<close>

lemma create_loop_ok:
  "create_loop job w ns = (None, w', evs) \<Longrightarrow> evs = map (\<lambda>n. EvCreate n None) ns"
  by (induction ns arbitrary: w evs) (auto split: prod.splits option.splits)

lemma create_loop_fails_at:
  assumes "create_loop job w pre = (None, w1, evs1)"
    and "Create (archivist (app job)) w1 r = (Some err, w2)"
  shows "create_loop job w (pre @ r # post) =
     (Some (''[Job.saveNews][News.Create]: '' @ err), w2, evs1 @ [EvCreate r (Some err)])"
  using assms
  by (induction pre arbitrary: w evs1) (auto split: prod.splits option.splits)

lemma publish_length:
  "publish job w ns = (Inr rs, w', evs) \<Longrightarrow> length rs = length ns"
  by (induction ns arbitrary: w rs w' evs) (auto split: prod.splits sum.splits)

lemma publish_append:
  "publish job w (xs @ ys) =
     (case publish job w xs of
        (Inl f, w', evs) \<Rightarrow> (Inl f, w', evs)
      | (Inr xs', w', evs) \<Rightarrow>
          (case publish job w' ys of
             (Inl f, w'', evs') \<Rightarrow> (Inl f, w'', evs @ evs')
           | (Inr ys', w'', evs') \<Rightarrow> (Inr (xs' @ ys'), w'', evs @ evs')))"
  by (induction xs arbitrary: w) (auto split: prod.splits sum.splits)

text \<open>A record that the body of the loop passes over can be taken out of the list: the
  calls, the world and the other records are the same.\<close>

lemma publish_skip:
  assumes skip: "\<And>w. publish_one job w n = (Inr n, w, [])"
  shows "publish job w (pre @ n # post) =
     (case publish job w (pre @ post) of
        (Inl f, w', evs) \<Rightarrow> (Inl f, w', evs)
      | (Inr rs, w', evs) \<Rightarrow>
          (Inr (take (length pre) rs @ n # drop (length pre) rs), w', evs))"
proof (cases "publish job w pre")
  case (fields r w1 evs1)
  show ?thesis
  proof (cases r)
    case (Inl f)
    with fields show ?thesis by (simp add: publish_append)
  next
    case (Inr pre')
    with fields have len: "length pre' = length pre"
      by (simp add: publish_length)
    show ?thesis
    proof (cases "publish job w1 post")
      case inner: (fields r2 w2 evs2)
      show ?thesis
        using fields Inr inner len skip [of w1]
        by (cases r2) (simp_all add: publish_append)
    qed
  qed
qed

subsection \<open>The events of the stages\<close>

lemma removeDuplicates_events:
  "removeDuplicates job w news = (r, w', evs) \<Longrightarrow>
     evs = [] \<or> evs = [EvFindAllByHashes (map ID news)]"
  by (auto simp: removeDuplicates_def Let_def split: if_splits prod.splits sum.splits)

lemma Compose_events:
  "Compose c rt w news = (r, w', evs) \<Longrightarrow> evs = [] \<or> (\<exists>req. evs = [EvChatCompletion req])"
  by (auto simp: Compose_def Let_def split: if_splits prod.splits sum.splits list.splits)

lemma composeNews_events:
  "composeNews job w news = (r, w', evs) \<Longrightarrow>
     evs = [] \<or> evs = [EvCompose news] \<or> (\<exists>req. evs = [EvCompose news, EvChatCompletion req])"
  by (auto simp: composeNews_def split: if_splits prod.splits sum.splits fault.splits
      dest: Compose_events)

subsection \<open>The stages do not read the journalist\<close>

lemma newDBNews_journalist [simp]: "newDBNews (job\<lparr>journalist := j\<rparr>) = newDBNews job"
  by (simp add: fun_eq_iff newDBNews_def)

lemma dbNews_loop_journalist [simp]:
  "dbNews_loop (job\<lparr>journalist := j\<rparr>) m ns = dbNews_loop job m ns"
  by (induction ns) (simp_all cong: option.case_cong sum.case_cong)

lemma create_loop_journalist [simp]:
  "create_loop (job\<lparr>journalist := j\<rparr>) w ns = create_loop job w ns"
  by (induction ns arbitrary: w) (simp_all cong: option.case_cong prod.case_cong)

lemma update_loop_journalist [simp]:
  "update_loop (job\<lparr>journalist := j\<rparr>) w ns = update_loop job w ns"
  by (induction ns arbitrary: w) (simp_all cong: option.case_cong prod.case_cong)

lemma formatNews_journalist [simp]:
  "formatNews (job\<lparr>journalist := j\<rparr>) n = formatNews job n"
  by (simp add: formatNews_def)

lemma publish_one_journalist [simp]:
  "publish_one (job\<lparr>journalist := j\<rparr>) w n = publish_one job w n"
  by (simp add: publish_one_def Let_def
      cong: sum.case_cong prod.case_cong bool.case_cong if_cong)

lemma publish_journalist [simp]:
  "publish (job\<lparr>journalist := j\<rparr>) w ns = publish job w ns"
  by (induction ns arbitrary: w) (simp_all cong: sum.case_cong prod.case_cong)

lemma stages_journalist [simp]:
  "removeDuplicates (job\<lparr>journalist := j\<rparr>) w news = removeDuplicates job w news"
  "composeNews (job\<lparr>journalist := j\<rparr>) w news = composeNews job w news"
  "saveNews (job\<lparr>journalist := j\<rparr>) w data = saveNews job w data"
  "updateNews (job\<lparr>journalist := j\<rparr>) w ns = updateNews job w ns"
  by (simp_all add: removeDuplicates_def composeNews_def saveNews_def updateNews_def
      cong: sum.case_cong prod.case_cong)

lemma stage_failed_without_fetch_error [simp]:
  "stage_failed (without_fetch_error job) warn stage f w evs = stage_failed job warn stage f w evs"
  by (simp add: stage_failed_def without_fetch_error_def log_tag_def jobName_def
      split: fault.splits)

lemma stage_failed_Cons:
  "stage_failed job warn stage f w (ev # evs) =
     (case stage_failed job warn stage f w evs of (out, w', evs') \<Rightarrow> (out, w', ev # evs'))"
  by (simp add: stage_failed_def split: fault.splits)

lemma stage_failed_append:
  "stage_failed job warn stage f w (evs0 @ evs) =
     (case stage_failed job warn stage f w evs of (out, w', evs') \<Rightarrow> (out, w', evs0 @ evs'))"
  by (simp add: stage_failed_def split: fault.splits)

lemma Run_first_event:
  "\<exists>evs. snd (snd (Run job w0)) = EvGetLatestNews (until job) # evs"
  by (auto simp: Run_def stage_failed_def Let_def
      split: prod.splits sum.splits option.splits fault.splits)

lemma Run_without_fetch_error:
  assumes fetch: "GetLatestNews (journalist job) w0 (until job) = ((news, err), w1)"
  shows "Run job w0 =
     (case Run (without_fetch_error job) w0 of
        (out, w', evs) \<Rightarrow>
          (out, w',
           EvGetLatestNews (until job) #
             (case err of
                None \<Rightarrow> []
              | Some e \<Rightarrow> [EvLogInfo (log_tag job ''GetLatestNews'') e,
                            EvCaptureException e]) @ tl evs))"
proof -
  have until: "until (without_fetch_error job) = until job"
    by (simp add: without_fetch_error_def)
  have fetch': "GetLatestNews (journalist (without_fetch_error job)) w0 (until job) =
                  ((news, None), w1)"
    using fetch by (simp add: without_fetch_error_def)
  have st: "removeDuplicates (without_fetch_error job) = removeDuplicates job"
    "composeNews (without_fetch_error job) = composeNews job"
    "saveNews (without_fetch_error job) = saveNews job"
    "publish (without_fetch_error job) = publish job"
    "updateNews (without_fetch_error job) = updateNews job"
    by (simp_all add: without_fetch_error_def fun_eq_iff)
  show ?thesis
    by (simp add: Run_def until fetch fetch' st stage_failed_Cons stage_failed_append Let_def
        split: prod.splits sum.splits option.splits fault.splits)
qed

section \<open>Properties of the pipeline\<close>

text \<open>
  C1 does not hold as it is stated. Where persistence is off, saveNews returns at its
  first line with no record (job.go, lines 231 to 233), and publish is given that empty
  list. On the concrete job with shouldSaveToDB, omitSuspicious and omitEmptyMeta unset,
  three items are fetched and composed, no filter applies, and the run ends without a
  single call to Publish.
\<close>

theorem no_persistence_counterexample:
  "\<not> shouldSaveToDB ((demo_job [] 0)\<lparr>shouldSaveToDB := False, omitSuspicious := False,
        omitEmptyMeta := False\<rparr>) \<and>
   \<not> omitSuspicious ((demo_job [] 0)\<lparr>shouldSaveToDB := False, omitSuspicious := False,
        omitEmptyMeta := False\<rparr>) \<and>
   \<not> omitEmptyMeta ((demo_job [] 0)\<lparr>shouldSaveToDB := False, omitSuspicious := False,
        omitEmptyMeta := False\<rparr>) \<and>
   Run ((demo_job [] 0)\<lparr>shouldSaveToDB := False, omitSuspicious := False,
        omitEmptyMeta := False\<rparr>) 0 =
     (End_Success, 0,
      [EvGetLatestNews demo_now,
       EvCompose [demo_A, demo_B, demo_C],
       EvChatCompletion (OpenAI_request ''compose'' ''a1b2c3'')])"
  by (simp add: demo_defs stage_defs)

text \<open>
  C1, as the code has it. With shouldSaveToDB unset, saveNews returns no record and
  makes no call, whatever the news and the composed items are; publish then iterates an
  empty list, so a run makes no Create, no Publish and no Update call.
\<close>

theorem no_persistence_no_publish:
  assumes "\<not> shouldSaveToDB job"
  shows "saveNews job w data = (Inr [], w, []) \<and>
     (\<exists>out w' evs. Run job w0 = (out, w', evs) \<and>
        filter is_Create evs = [] \<and> filter is_Publish evs = [] \<and> filter is_Update evs = [])"
proof -
  have saved: "saveNews job w data = (Inr [], w, [])" for w data
    using assms by (simp add: saveNews_def)
  have upd: "updateNews job w ns = (None, w, [])" for w ns
    using assms by (simp add: updateNews_def)
  have ded: "removeDuplicates job w news = (Inr news, w, [])" for w news
    using assms by (simp add: removeDuplicates_def)
  obtain news ferr w1 where fetch:
    "GetLatestNews (journalist job) w0 (until job) = ((news, ferr), w1)"
    by (metis surj_pair)
  obtain r w3 evs3 where compose: "composeNews job w1 news = (r, w3, evs3)"
    by (metis surj_pair)
  have f3: "filter is_Create evs3 = [] \<and> filter is_Publish evs3 = [] \<and> filter is_Update evs3 = []"
    using composeNews_events [OF compose] by auto
  obtain out w' evs where run: "Run job w0 = (out, w', evs)"
    by (metis surj_pair)
  have "filter is_Create evs = [] \<and> filter is_Publish evs = [] \<and> filter is_Update evs = []"
    using run f3
    by (auto simp: Run_def fetch ded compose saved upd stage_failed_def Let_def
        split: if_splits sum.splits option.splits fault.splits)
  with run saved show ?thesis by blast
qed

theorem no_persistence_no_publish_witness:
  "\<not> shouldSaveToDB ((demo_job [] 0)\<lparr>shouldSaveToDB := False\<rparr>) \<and>
   saveNews ((demo_job [] 0)\<lparr>shouldSaveToDB := False\<rparr>) 0
     \<lparr>jdNews = [demo_A, demo_B, demo_C],
      jdComposedNews = [Some demo_composed_A, Some demo_composed_C]\<rparr> = (Inr [], 0, []) \<and>
   filter is_Publish (snd (snd (Run ((demo_job [] 0)\<lparr>shouldSaveToDB := False\<rparr>) 0))) = []"
  using no_persistence_no_publish [of "(demo_job [] 0)\<lparr>shouldSaveToDB := False\<rparr>" 0
      "\<lparr>jdNews = [demo_A, demo_B, demo_C],
        jdComposedNews = [Some demo_composed_A, Some demo_composed_C]\<rparr>" 0]
  by (auto simp: demo_job_def)

text \<open>
  C2. Compose keeps an item when the day of the month of its date equals the day of the
  month of the clock (composer.go, line 31), not when the two are the same calendar day.
  On 2023-11-15 an item dated 2023-10-15 passes the filter and is sent to the language
  model.
\<close>

theorem Compose_day_of_month_only:
  "Year (Date demo_old) = Year (time_Now demo_runtime 0) \<and>
   Month (Date demo_old) \<noteq> Month (time_Now demo_runtime 0) \<and>
   Compose (composer (demo_app [] 0)) demo_runtime 0 [demo_old] =
     (Inr [Some demo_composed_A, Some demo_composed_C], 0,
      [EvChatCompletion (OpenAI_request ''compose'' ''o0'')])"
  by (simp add: demo_defs Compose_def)

text \<open>
  C3. removeDuplicates asks the archivist only when shouldRemoveClones and
  shouldSaveToDB are both set, with the ids of all the news, once; otherwise it returns
  the news as they are, without a call. When the archivist answers, the result is the
  news whose id is not among the hashes of the records it returned, in the order of the
  input; when it fails, the error is returned.
\<close>

theorem removeDuplicates_spec:
  "removeDuplicates job w news =
     (if shouldRemoveClones job \<and> shouldSaveToDB job then
        (case FindAllByHashes (archivist (app job)) w (map ID news) of
           (Inl err, w') \<Rightarrow>
             (Inl (Error (''[Job.removeDuplicates][News.FindAllByHashes]: '' @ err)), w',
              [EvFindAllByHashes (map ID news)])
         | (Inr exists, w') \<Rightarrow>
             (Inr (filter (\<lambda>n. ID n \<notin> set (map Hash exists)) news), w',
              [EvFindAllByHashes (map ID news)]))
      else (Inr news, w, []))"
  by (simp add: removeDuplicates_def uniqueNews_loop_filter split: prod.splits sum.splits)

theorem removeDuplicates_spec_witness:
  "removeDuplicates (demo_job [''b2''] 0) 0 [demo_A, demo_B, demo_C] =
     (Inr [demo_A, demo_C], 0, [EvFindAllByHashes [''a1'', ''b2'', ''c3'']])"
  using removeDuplicates_spec [of "demo_job [''b2''] 0" 0 "[demo_A, demo_B, demo_C]"]
  by (simp add: demo_defs)

text \<open>
  C4. With shouldSaveToDB set, when there are more composed items than news, saveNews
  returns the consistency error; it makes no call (no Create) and leaves the world as it
  was. The error is fatal: a run that reaches saveNews with such data logs and captures
  the error and ends failed in the world the compose stage left, and it makes no Create,
  no Publish and no Update call.
\<close>

theorem saveNews_count_check:
  assumes save: "shouldSaveToDB job"
    and count: "length (jdNews data) < length (jdComposedNews data)"
  shows "saveNews job w data =
       (Inl (Error ''[Job.saveNews]: Composed news count is more than original news count''),
        w, []) \<and>
     (\<forall>w0 news ferr w1 w2 evs2 evs3.
        GetLatestNews (journalist job) w0 (until job) = ((news, ferr), w1) \<and> news \<noteq> [] \<and>
        removeDuplicates job w1 news = (Inr (jdNews data), w2, evs2) \<and> jdNews data \<noteq> [] \<and>
        composeNews job w2 (jdNews data) = (Inr (jdComposedNews data), w, evs3) \<longrightarrow>
        (\<exists>evs. Run job w0 = (End_Failed, w, evs) \<and>
           evs =
             EvGetLatestNews (until job) #
               (case ferr of
                  None \<Rightarrow> []
                | Some e \<Rightarrow> [EvLogInfo (log_tag job ''GetLatestNews'') e,
                              EvCaptureException e])
               @ evs2 @ evs3
               @ [EvLogWarn (log_tag job ''saveNews'')
                    ''[Job.saveNews]: Composed news count is more than original news count'',
                  EvCaptureException
                    ''[Job.saveNews]: Composed news count is more than original news count''] \<and>
           filter is_Create evs = [] \<and> filter is_Publish evs = [] \<and>
           filter is_Update evs = []))"
proof -
  have stage: "saveNews job w data =
       (Inl (Error ''[Job.saveNews]: Composed news count is more than original news count''),
        w, [])" for w
    using save count by (simp add: saveNews_def)
  have data: "\<lparr>jdNews = jdNews data, jdComposedNews = jdComposedNews data\<rparr> = data"
    by simp
  have run: "\<exists>evs. Run job w0 = (End_Failed, w, evs) \<and>
           evs =
             EvGetLatestNews (until job) #
               (case ferr of
                  None \<Rightarrow> []
                | Some e \<Rightarrow> [EvLogInfo (log_tag job ''GetLatestNews'') e,
                              EvCaptureException e])
               @ evs2 @ evs3
               @ [EvLogWarn (log_tag job ''saveNews'')
                    ''[Job.saveNews]: Composed news count is more than original news count'',
                  EvCaptureException
                    ''[Job.saveNews]: Composed news count is more than original news count''] \<and>
           filter is_Create evs = [] \<and> filter is_Publish evs = [] \<and>
           filter is_Update evs = []"
    if fetch: "GetLatestNews (journalist job) w0 (until job) = ((news, ferr), w1)"
      and news: "news \<noteq> []"
      and dedupe: "removeDuplicates job w1 news = (Inr (jdNews data), w2, evs2)"
      and unique: "jdNews data \<noteq> []"
      and compose: "composeNews job w2 (jdNews data) = (Inr (jdComposedNews data), w, evs3)"
    for w0 news ferr w1 w2 evs2 evs3
  proof -
    have f2: "filter is_Create evs2 = [] \<and> filter is_Publish evs2 = [] \<and>
              filter is_Update evs2 = []"
      using removeDuplicates_events [OF dedupe] by auto
    have f3: "filter is_Create evs3 = [] \<and> filter is_Publish evs3 = [] \<and>
              filter is_Update evs3 = []"
      using composeNews_events [OF compose] by auto
    show ?thesis
      using news unique f2 f3
      by (simp add: Run_def fetch dedupe compose data stage stage_failed_def
          split: option.splits)
  qed
  from stage run show ?thesis by blast
qed

theorem saveNews_count_check_witness:
  "saveNews ((demo_job [] 0)\<lparr>journalist := demo_journalist [demo_A] None\<rparr>) 0
     \<lparr>jdNews = [demo_A], jdComposedNews = [Some demo_composed_A, Some demo_composed_C]\<rparr> =
     (Inl (Error ''[Job.saveNews]: Composed news count is more than original news count''),
      0, []) \<and>
   Run ((demo_job [] 0)\<lparr>journalist := demo_journalist [demo_A] None\<rparr>) 0 =
     (End_Failed, 0,
      [EvGetLatestNews demo_now,
       EvFindAllByHashes [''a1''],
       EvCompose [demo_A],
       EvChatCompletion (OpenAI_request ''compose'' ''a1''),
       EvLogWarn ''[Run.demo][saveNews]''
         ''[Job.saveNews]: Composed news count is more than original news count'',
       EvCaptureException
         ''[Job.saveNews]: Composed news count is more than original news count''])"
proof -
  let ?job = "(demo_job [] 0)\<lparr>journalist := demo_journalist [demo_A] None\<rparr>"
  let ?data = "\<lparr>jdNews = [demo_A],
                 jdComposedNews = [Some demo_composed_A, Some demo_composed_C]\<rparr>"
  have save: "shouldSaveToDB ?job" by (simp add: demo_job_def)
  have count: "length (jdNews ?data) < length (jdComposedNews ?data)" by simp
  have fetch: "GetLatestNews (journalist ?job) 0 (until ?job) = (([demo_A], None), 0)"
    by (simp add: demo_journalist_def)
  have dedupe: "removeDuplicates ?job 0 [demo_A] =
      (Inr (jdNews ?data), 0, [EvFindAllByHashes [''a1'']])"
    by (simp add: demo_defs removeDuplicates_def)
  have compose: "composeNews ?job 0 (jdNews ?data) =
      (Inr (jdComposedNews ?data), 0,
       [EvCompose [demo_A], EvChatCompletion (OpenAI_request ''compose'' ''a1'')])"
    by (simp add: demo_defs composeNews_def Compose_def)
  note inst = saveNews_count_check [OF save count, of 0]
  from inst have stage: "saveNews ?job 0 ?data =
     (Inl (Error ''[Job.saveNews]: Composed news count is more than original news count''),
      0, [])"
    by simp
  from inst [THEN conjunct2, rule_format, of 0 "[demo_A]" None 0 0 _ _]
    fetch dedupe compose
  have "Run ?job 0 =
     (End_Failed, 0,
      [EvGetLatestNews (until ?job),
       EvFindAllByHashes [''a1''],
       EvCompose [demo_A],
       EvChatCompletion (OpenAI_request ''compose'' ''a1''),
       EvLogWarn (log_tag ?job ''saveNews'')
         ''[Job.saveNews]: Composed news count is more than original news count'',
       EvCaptureException
         ''[Job.saveNews]: Composed news count is more than original news count''])"
    by auto
  then have "Run ?job 0 =
     (End_Failed, 0,
      [EvGetLatestNews demo_now,
       EvFindAllByHashes [''a1''],
       EvCompose [demo_A],
       EvChatCompletion (OpenAI_request ''compose'' ''a1''),
       EvLogWarn ''[Run.demo][saveNews]''
         ''[Job.saveNews]: Composed news count is more than original news count'',
       EvCaptureException
         ''[Job.saveNews]: Composed news count is more than original news count''])"
    by (simp add: log_tag_def jobName_def demo_job_def demo_journalist_def)
  with stage show ?thesis by simp
qed

text \<open>
  C5. When the fetch returns no news, with or without an error, the run ends as a no-op
  in the world the fetch left: its only events are the fetch and, for an error, the info
  log and the capture of that error; no other collaborator is called. An error of the
  fetch is not fatal: the run ends as, reaches the world of and makes the calls of the
  run in which the fetch returned the same news without an error, the two log events
  after the fetch being the only difference. With a non-empty list the run goes on with
  that list, error or not: removeDuplicates is applied to the list in the world the
  fetch left; its error ends the run failed, its empty result ends it as a no-op, and
  when every later stage succeeds on the result of the one before, the run ends in
  success with the events of the five stages after those of the fetch.
\<close>

theorem fetch_error_recoverable:
  assumes fetch: "GetLatestNews (journalist job) w0 (until job) = ((news, err), w1)"
  shows "(news = [] \<longrightarrow>
            Run job w0 =
              (End_NoOp, w1,
               EvGetLatestNews (until job) #
                 (case err of
                    None \<Rightarrow> []
                  | Some e \<Rightarrow> [EvLogInfo (log_tag job ''GetLatestNews'') e,
                                EvCaptureException e]))) \<and>
         (\<exists>out w' evs.
            Run (without_fetch_error job) w0 = (out, w', EvGetLatestNews (until job) # evs) \<and>
            Run job w0 =
              (out, w',
               EvGetLatestNews (until job) #
                 (case err of
                    None \<Rightarrow> []
                  | Some e \<Rightarrow> [EvLogInfo (log_tag job ''GetLatestNews'') e,
                                EvCaptureException e]) @ evs)) \<and>
         (news \<noteq> [] \<longrightarrow>
            (\<forall>e w2 evs2.
               removeDuplicates job w1 news = (Inl (Error e), w2, evs2) \<longrightarrow>
               Run job w0 =
                 (End_Failed, w2,
                  EvGetLatestNews (until job) #
                    (case err of
                       None \<Rightarrow> []
                     | Some e \<Rightarrow> [EvLogInfo (log_tag job ''GetLatestNews'') e,
                                   EvCaptureException e])
                    @ evs2
                    @ [EvLogInfo (log_tag job ''removeDuplicates'') e,
                       EvCaptureException e])) \<and>
            (\<forall>w2 evs2.
               removeDuplicates job w1 news = (Inr [], w2, evs2) \<longrightarrow>
               Run job w0 =
                 (End_NoOp, w2,
                  EvGetLatestNews (until job) #
                    (case err of
                       None \<Rightarrow> []
                     | Some e \<Rightarrow> [EvLogInfo (log_tag job ''GetLatestNews'') e,
                                   EvCaptureException e])
                    @ evs2)) \<and>
            (\<forall>uniqueNews w2 evs2 composedNews w3 evs3 dbNews w4 evs4 dbNews' w5 evs5 w6 evs6.
               removeDuplicates job w1 news = (Inr uniqueNews, w2, evs2) \<and>
               uniqueNews \<noteq> [] \<and>
               composeNews job w2 uniqueNews = (Inr composedNews, w3, evs3) \<and>
               saveNews job w3 \<lparr>jdNews = uniqueNews, jdComposedNews = composedNews\<rparr> =
                 (Inr dbNews, w4, evs4) \<and>
               publish job w4 dbNews = (Inr dbNews', w5, evs5) \<and>
               updateNews job w5 dbNews' = (None, w6, evs6) \<longrightarrow>
               Run job w0 =
                 (End_Success, w6,
                  EvGetLatestNews (until job) #
                    (case err of
                       None \<Rightarrow> []
                     | Some e \<Rightarrow> [EvLogInfo (log_tag job ''GetLatestNews'') e,
                                   EvCaptureException e])
                    @ evs2 @ evs3 @ evs4 @ evs5 @ evs6)))"
proof -
  have empty: "news = [] \<Longrightarrow>
      Run job w0 =
        (End_NoOp, w1,
         EvGetLatestNews (until job) #
           (case err of
              None \<Rightarrow> []
            | Some e \<Rightarrow> [EvLogInfo (log_tag job ''GetLatestNews'') e,
                          EvCaptureException e]))"
    using fetch by (simp add: Run_def)
  obtain out w' evs0 where r: "Run (without_fetch_error job) w0 = (out, w', evs0)"
    by (cases "Run (without_fetch_error job) w0") auto
  from Run_first_event [of "without_fetch_error job" w0] r
  obtain evs where evs0: "evs0 = EvGetLatestNews (until job) # evs"
    by (auto simp: without_fetch_error_def)
  have same: "\<exists>out w' evs.
            Run (without_fetch_error job) w0 = (out, w', EvGetLatestNews (until job) # evs) \<and>
            Run job w0 =
              (out, w',
               EvGetLatestNews (until job) #
                 (case err of
                    None \<Rightarrow> []
                  | Some e \<Rightarrow> [EvLogInfo (log_tag job ''GetLatestNews'') e,
                                EvCaptureException e]) @ evs)"
    using Run_without_fetch_error [OF fetch] r evs0 by simp
  have failed: "Run job w0 =
                 (End_Failed, w2,
                  EvGetLatestNews (until job) #
                    (case err of
                       None \<Rightarrow> []
                     | Some e \<Rightarrow> [EvLogInfo (log_tag job ''GetLatestNews'') e,
                                   EvCaptureException e])
                    @ evs2
                    @ [EvLogInfo (log_tag job ''removeDuplicates'') e,
                       EvCaptureException e])"
    if "news \<noteq> []" and "removeDuplicates job w1 news = (Inl (Error e), w2, evs2)"
    for e w2 evs2
    using that by (simp add: Run_def fetch stage_failed_def)
  have noop: "Run job w0 =
                 (End_NoOp, w2,
                  EvGetLatestNews (until job) #
                    (case err of
                       None \<Rightarrow> []
                     | Some e \<Rightarrow> [EvLogInfo (log_tag job ''GetLatestNews'') e,
                                   EvCaptureException e])
                    @ evs2)"
    if "news \<noteq> []" and "removeDuplicates job w1 news = (Inr [], w2, evs2)"
    for w2 evs2
    using that by (simp add: Run_def fetch)
  have success: "Run job w0 =
                 (End_Success, w6,
                  EvGetLatestNews (until job) #
                    (case err of
                       None \<Rightarrow> []
                     | Some e \<Rightarrow> [EvLogInfo (log_tag job ''GetLatestNews'') e,
                                   EvCaptureException e])
                    @ evs2 @ evs3 @ evs4 @ evs5 @ evs6)"
    if "news \<noteq> []"
      and "removeDuplicates job w1 news = (Inr uniqueNews, w2, evs2)"
      and "uniqueNews \<noteq> []"
      and "composeNews job w2 uniqueNews = (Inr composedNews, w3, evs3)"
      and "saveNews job w3 \<lparr>jdNews = uniqueNews, jdComposedNews = composedNews\<rparr> =
             (Inr dbNews, w4, evs4)"
      and "publish job w4 dbNews = (Inr dbNews', w5, evs5)"
      and "updateNews job w5 dbNews' = (None, w6, evs6)"
    for uniqueNews w2 evs2 composedNews w3 evs3 dbNews w4 evs4 dbNews' w5 evs5 w6 evs6
    using that by (simp add: Run_def fetch)
  from empty same failed noop success show ?thesis
    by blast
qed

theorem fetch_error_recoverable_witness:
  "Run ((demo_job [] 0)\<lparr>journalist := demo_journalist [] (Some ''feed down'')\<rparr>) 0 =
     (End_NoOp, 0,
      [EvGetLatestNews demo_now, EvLogInfo ''[Run.demo][GetLatestNews]'' ''feed down'',
       EvCaptureException ''feed down'']) \<and>
   Run ((demo_job [] 0)\<lparr>journalist :=
          demo_journalist [demo_A, demo_B, demo_C] (Some ''feed down'')\<rparr>) 0 =
     (End_Success, 3,
      [EvGetLatestNews demo_now,
       EvLogInfo ''[Run.demo][GetLatestNews]'' ''feed down'',
       EvCaptureException ''feed down'',
       EvFindAllByHashes [''a1'', ''b2'', ''c3''],
       EvCompose [demo_A, demo_B, demo_C],
       EvChatCompletion (OpenAI_request ''compose'' ''a1b2c3''),
       EvCreate demo_dbA None, EvCreate demo_dbB None, EvCreate demo_dbC None,
       EvPublish (formatNews (demo_job [] 0) demo_dbA) (Inr ''msg''),
       EvUpdate (demo_published demo_dbA) None, EvUpdate demo_dbB None,
       EvUpdate demo_dbC None])"
proof -
  let ?j0 = "(demo_job [] 0)\<lparr>journalist := demo_journalist [] (Some ''feed down'')\<rparr>"
  let ?j1 = "(demo_job [] 0)\<lparr>journalist :=
               demo_journalist [demo_A, demo_B, demo_C] (Some ''feed down'')\<rparr>"
  let ?news = "[demo_A, demo_B, demo_C]"
  let ?composed = "[Some demo_composed_A, Some demo_composed_C]"
  let ?text = "formatNews (demo_job [] 0) demo_dbA"
  have f0: "GetLatestNews (journalist ?j0) 0 (until ?j0) = (([], Some ''feed down''), 0)"
    by (simp add: demo_journalist_def)
  have f1: "GetLatestNews (journalist ?j1) 0 (until ?j1) = ((?news, Some ''feed down''), 0)"
    by (simp add: demo_journalist_def)
  have tag: "log_tag ?j0 ''GetLatestNews'' = ''[Run.demo][GetLatestNews]''"
    "log_tag ?j1 ''GetLatestNews'' = ''[Run.demo][GetLatestNews]''"
    by (simp_all add: log_tag_def jobName_def demo_journalist_def)
  have u: "until ?j0 = demo_now" "until ?j1 = demo_now"
    by (simp_all add: demo_job_def)
  have dedupe: "removeDuplicates ?j1 0 ?news =
      (Inr ?news, 0, [EvFindAllByHashes [''a1'', ''b2'', ''c3'']])"
    by (simp add: demo_defs removeDuplicates_def)
  have compose: "composeNews ?j1 0 ?news =
      (Inr ?composed, 0,
       [EvCompose ?news, EvChatCompletion (OpenAI_request ''compose'' ''a1b2c3'')])"
    by (simp add: demo_defs composeNews_def Compose_def)
  have saved: "saveNews ?j1 0 \<lparr>jdNews = ?news, jdComposedNews = ?composed\<rparr> =
      (Inr [demo_dbA, demo_dbB, demo_dbC], 3,
       [EvCreate demo_dbA None, EvCreate demo_dbB None, EvCreate demo_dbC None])"
    by (simp add: demo_defs demo_db_defs saveNews_def newDBNews_def)
  have published: "publish ?j1 3 [demo_dbA, demo_dbB, demo_dbC] =
      (Inr [demo_published demo_dbA, demo_dbB, demo_dbC], 3, [EvPublish ?text (Inr ''msg'')])"
    by (simp add: demo_defs demo_db_defs publish_one_def formatNews_def MetaData_String_def
        json_Unmarshal_meta_def)
  have updated: "updateNews ?j1 3 [demo_published demo_dbA, demo_dbB, demo_dbC] =
      (None, 3,
       [EvUpdate (demo_published demo_dbA) None, EvUpdate demo_dbB None,
        EvUpdate demo_dbC None])"
    by (simp add: demo_job_def demo_app_def demo_archivist_def updateNews_def)
  from fetch_error_recoverable [OF f0]
  have a: "Run ?j0 0 =
     (End_NoOp, 0,
      [EvGetLatestNews demo_now, EvLogInfo ''[Run.demo][GetLatestNews]'' ''feed down'',
       EvCaptureException ''feed down''])"
    by (simp add: tag u)
  have ne: "?news \<noteq> []" by simp
  from fetch_error_recoverable [OF f1, THEN conjunct2, THEN conjunct2, rule_format, OF ne,
      THEN conjunct2, THEN conjunct2, rule_format,
      of ?news 0 _ ?composed 0 _ "[demo_dbA, demo_dbB, demo_dbC]" 3 _
         "[demo_published demo_dbA, demo_dbB, demo_dbC]" 3 _ 3 _]
    dedupe compose saved published updated
  have b: "Run ?j1 0 =
     (End_Success, 3,
      [EvGetLatestNews demo_now,
       EvLogInfo ''[Run.demo][GetLatestNews]'' ''feed down'',
       EvCaptureException ''feed down'',
       EvFindAllByHashes [''a1'', ''b2'', ''c3''],
       EvCompose ?news,
       EvChatCompletion (OpenAI_request ''compose'' ''a1b2c3''),
       EvCreate demo_dbA None, EvCreate demo_dbB None, EvCreate demo_dbC None,
       EvPublish ?text (Inr ''msg''),
       EvUpdate (demo_published demo_dbA) None, EvUpdate demo_dbB None,
       EvUpdate demo_dbC None])"
    by (simp add: tag u)
  from a b show ?thesis by simp
qed




text \<open>
  C7. With omitSuspicious set, a suspicious record is passed over by the loop of
  publish: the body of the loop makes no call for it and leaves it as it is, and
  publishing a list with the record makes the calls, reaches the world and returns the
  other records of publishing the list without it, the record itself unchanged at its
  place (so its PublicationID and PublishedAt are what they were).
\<close>

theorem publish_omits_suspicious:
  assumes "omitSuspicious job" and "dbIsSuspicious n"
  shows "publish_one job w n = (Inr n, w, []) \<and>
     publish job w (pre @ n # post) =
       (case publish job w (pre @ post) of
          (Inl f, w', evs) \<Rightarrow> (Inl f, w', evs)
        | (Inr rs, w', evs) \<Rightarrow>
            (Inr (take (length pre) rs @ n # drop (length pre) rs), w', evs))"
proof -
  have skip: "publish_one job w n = (Inr n, w, [])" for w
    using assms by (simp add: publish_one_def)
  from skip publish_skip [of job n w pre post] show ?thesis
    by simp
qed

theorem publish_omits_suspicious_witness:
  "omitSuspicious ((demo_job [] 0)\<lparr>omitEmptyMeta := False\<rparr>) \<and> dbIsSuspicious demo_dbB \<and>
   publish ((demo_job [] 0)\<lparr>omitEmptyMeta := False\<rparr>) 0 [demo_dbA, demo_dbB, demo_dbC] =
     (Inr [demo_published demo_dbA, demo_dbB, demo_published demo_dbC], 0,
      [EvPublish (formatNews (demo_job [] 0) demo_dbA) (Inr ''msg''),
       EvPublish (formatNews (demo_job [] 0) demo_dbC) (Inr ''msg'')])"
  using publish_omits_suspicious [of "(demo_job [] 0)\<lparr>omitEmptyMeta := False\<rparr>" demo_dbB
      0 "[demo_dbA]" "[demo_dbC]"]
  by (simp add: demo_defs demo_db_defs publish_one_def formatNews_def MetaData_String_def)

text \<open>
  C8. With omitEmptyMeta set (whether or not texts are composed), a record whose
  metadata decodes to no ticker, no market and no hashtag is passed over by the loop of
  publish: no call is made for it, and publishing a list with the record makes the calls
  of publishing the list without it.
\<close>

theorem publish_omits_empty_meta:
  assumes "omitEmptyMeta job"
    and "json_Unmarshal_meta (runtime (app job)) (MetaData n) = Inr m"
    and "mTickers m = []" and "mMarkets m = []" and "mHashtags m = []"
  shows "publish_one job w n = (Inr n, w, []) \<and>
     publish job w (pre @ n # post) =
       (case publish job w (pre @ post) of
          (Inl f, w', evs) \<Rightarrow> (Inl f, w', evs)
        | (Inr rs, w', evs) \<Rightarrow>
            (Inr (take (length pre) rs @ n # drop (length pre) rs), w', evs))"
proof -
  have skip: "publish_one job w n = (Inr n, w, [])" for w
    using assms by (simp add: publish_one_def)
  from skip publish_skip [of job n w pre post] show ?thesis
    by simp
qed

theorem publish_omits_empty_meta_witness:
  "omitEmptyMeta (demo_job [] 0) \<and>
   json_Unmarshal_meta (runtime (app (demo_job [] 0))) (MetaData demo_dbC) =
     Inr \<lparr>mTickers = [], mMarkets = [], mHashtags = []\<rparr> \<and>
   publish (demo_job [] 0) 0 [demo_dbA, demo_dbC] =
     (Inr [demo_published demo_dbA, demo_dbC], 0,
      [EvPublish (formatNews (demo_job [] 0) demo_dbA) (Inr ''msg'')])"
  using publish_omits_empty_meta [of "demo_job [] 0" demo_dbC
      "\<lparr>mTickers = [], mMarkets = [], mHashtags = []\<rparr>" 0 "[demo_dbA]" "[]"]
  by (simp add: demo_defs demo_db_defs publish_one_def formatNews_def MetaData_String_def
      json_Unmarshal_meta_def)

text \<open>
  C9. In a run that reaches saveNews with persistence on, where the records built are
  \<open>pre @ r # post\<close>, Create succeeds on every record of \<open>pre\<close> and fails on \<open>r\<close>:
  saveNews returns the error of that Create; the Create calls of the run are the
  successful ones for \<open>pre\<close>, in order, followed by the failed one for \<open>r\<close>, and none
  for \<open>post\<close>; the run ends failed, and it makes no Publish and no Update call.
\<close>

theorem create_failure_is_fatal:
  assumes fetch: "GetLatestNews (journalist job) w0 (until job) = ((news, ferr), w1)"
    and news: "news \<noteq> []"
    and dedupe: "removeDuplicates job w1 news = (Inr uniqueNews, w2, evs2)"
    and unique: "uniqueNews \<noteq> []"
    and compose: "composeNews job w2 uniqueNews = (Inr composedNews, w3, evs3)"
    and save: "shouldSaveToDB job"
    and count: "length composedNews \<le> length uniqueNews"
    and cmap: "composedNewsMap_loop composedNews Map.empty = Inr m"
    and build: "dbNews_loop job m uniqueNews = Inr (pre @ r # post)"
    and first_ok: "create_loop job w3 pre = (None, w4, evs4)"
    and kth_fails: "Create (archivist (app job)) w4 r = (Some err, w5)"
  shows "saveNews job w3 \<lparr>jdNews = uniqueNews, jdComposedNews = composedNews\<rparr> =
       (Inl (Error (''[Job.saveNews][News.Create]: '' @ err)), w5,
        map (\<lambda>n. EvCreate n None) pre @ [EvCreate r (Some err)]) \<and>
     (\<exists>evs. Run job w0 = (End_Failed, w5, evs) \<and>
        filter is_Create evs = map (\<lambda>n. EvCreate n None) pre @ [EvCreate r (Some err)] \<and>
        filter is_Publish evs = [] \<and> filter is_Update evs = [])"
proof -
  have evs4: "evs4 = map (\<lambda>n. EvCreate n None) pre"
    using first_ok by (rule create_loop_ok)
  have loop: "create_loop job w3 (pre @ r # post) =
     (Some (''[Job.saveNews][News.Create]: '' @ err), w5, evs4 @ [EvCreate r (Some err)])"
    using first_ok kth_fails by (rule create_loop_fails_at)
  have saved: "saveNews job w3 \<lparr>jdNews = uniqueNews, jdComposedNews = composedNews\<rparr> =
       (Inl (Error (''[Job.saveNews][News.Create]: '' @ err)), w5,
        evs4 @ [EvCreate r (Some err)])"
    using save count by (simp add: saveNews_def cmap build loop)
  let ?evs1 = "EvGetLatestNews (until job) #
                 (case ferr of
                    None \<Rightarrow> []
                  | Some e \<Rightarrow> [EvLogInfo (log_tag job ''GetLatestNews'') e,
                                EvCaptureException e])"
  let ?evs = "?evs1 @ evs2 @ evs3 @ (evs4 @ [EvCreate r (Some err)])
              @ [EvLogWarn (log_tag job ''saveNews'') (''[Job.saveNews][News.Create]: '' @ err),
                 EvCaptureException (''[Job.saveNews][News.Create]: '' @ err)]"
  have run: "Run job w0 = (End_Failed, w5, ?evs)"
    using news unique
    by (simp add: Run_def fetch dedupe compose saved stage_failed_def)
  have f1: "filter is_Create ?evs1 = [] \<and> filter is_Publish ?evs1 = [] \<and> filter is_Update ?evs1 = []"
    by (simp split: option.splits)
  have f2: "filter is_Create evs2 = [] \<and> filter is_Publish evs2 = [] \<and> filter is_Update evs2 = []"
    using removeDuplicates_events [OF dedupe] by auto
  have f3: "filter is_Create evs3 = [] \<and> filter is_Publish evs3 = [] \<and> filter is_Update evs3 = []"
    using composeNews_events [OF compose] by auto
  have f4: "filter is_Create evs4 = evs4 \<and> filter is_Publish evs4 = [] \<and> filter is_Update evs4 = []"
    by (simp add: evs4 filter_map o_def)
  have "filter is_Create ?evs = map (\<lambda>n. EvCreate n None) pre @ [EvCreate r (Some err)] \<and>
        filter is_Publish ?evs = [] \<and> filter is_Update ?evs = []"
    using f1 f2 f3 f4 by (simp add: evs4)
  with run saved evs4 show ?thesis by blast
qed

theorem create_failure_is_fatal_witness:
  "saveNews (demo_job [] 2) 0
     \<lparr>jdNews = [demo_A, demo_B, demo_C],
      jdComposedNews = [Some demo_composed_A, Some demo_composed_C]\<rparr> =
     (Inl (Error ''[Job.saveNews][News.Create]: disk full''), 2,
      [EvCreate demo_dbA None, EvCreate demo_dbB (Some ''disk full'')]) \<and>
   (\<exists>evs. Run (demo_job [] 2) 0 = (End_Failed, 2, evs) \<and>
      filter is_Create evs = [EvCreate demo_dbA None, EvCreate demo_dbB (Some ''disk full'')] \<and>
      filter is_Publish evs = [] \<and> filter is_Update evs = [])"
proof -
  let ?job = "demo_job [] 2"
  let ?news = "[demo_A, demo_B, demo_C]"
  let ?composed = "[Some demo_composed_A, Some demo_composed_C]"
  let ?req = "OpenAI_request ''compose'' ''a1b2c3''"
  let ?m = "Map.empty(''a1'' \<mapsto> demo_composed_A, ''c3'' \<mapsto> demo_composed_C)"
  have fetch: "GetLatestNews (journalist ?job) 0 (until ?job) = ((?news, None), 0)"
    by (simp add: demo_job_def demo_journalist_def)
  have news: "?news \<noteq> []" by simp
  have dedupe: "removeDuplicates ?job 0 ?news =
      (Inr ?news, 0, [EvFindAllByHashes (map ID ?news)])"
    by (simp add: demo_defs removeDuplicates_def)
  have compose: "composeNews ?job 0 ?news = (Inr ?composed, 0, [EvCompose ?news, EvChatCompletion ?req])"
    by (simp add: demo_defs composeNews_def Compose_def)
  have save: "shouldSaveToDB ?job" by (simp add: demo_job_def)
  have count: "length ?composed \<le> length ?news" by simp
  have cmap: "composedNewsMap_loop ?composed Map.empty = Inr ?m"
    by (simp add: demo_composed_A_def demo_composed_C_def)
  have build: "dbNews_loop ?job ?m ?news = Inr ([demo_dbA] @ demo_dbB # [demo_dbC])"
    by (simp add: demo_defs demo_db_defs newDBNews_def)
  have first_ok: "create_loop ?job 0 [demo_dbA] = (None, 1, [EvCreate demo_dbA None])"
    by (simp add: demo_job_def demo_app_def demo_archivist_def)
  have kth_fails: "Create (archivist (app ?job)) 1 demo_dbB = (Some ''disk full'', 2)"
    by (simp add: demo_job_def demo_app_def demo_archivist_def)
  from create_failure_is_fatal [OF fetch news dedupe news compose save count cmap build
      first_ok kth_fails]
  show ?thesis by simp
qed

text \<open>
  C10 does not hold as it is stated. The suspicious filter comes before the decoding of
  the metadata (job.go, lines 298 to 300, then 303 to 317). On the concrete job, with
  omitEmptyMeta and omitSuspicious both set, the second record has nil metadata and is
  suspicious: publish passes over it without an error, and the run ends in success.
\<close>

theorem nil_meta_suspicious_counterexample:
  "omitEmptyMeta (demo_job [] 0) \<and> MetaData demo_dbB = None \<and>
   publish (demo_job [] 0) 3 [demo_dbA, demo_dbB, demo_dbC] =
     (Inr [demo_published demo_dbA, demo_dbB, demo_dbC], 3,
      [EvPublish (formatNews (demo_job [] 0) demo_dbA) (Inr ''msg'')]) \<and>
   Run (demo_job [] 0) 0 =
     (End_Success, 3,
      [EvGetLatestNews demo_now,
       EvFindAllByHashes [''a1'', ''b2'', ''c3''],
       EvCompose [demo_A, demo_B, demo_C],
       EvChatCompletion (OpenAI_request ''compose'' ''a1b2c3''),
       EvCreate demo_dbA None, EvCreate demo_dbB None, EvCreate demo_dbC None,
       EvPublish (formatNews (demo_job [] 0) demo_dbA) (Inr ''msg''),
       EvUpdate (demo_published demo_dbA) None, EvUpdate demo_dbB None,
       EvUpdate demo_dbC None])"
  by (simp add: demo_defs demo_db_defs stage_defs)

text \<open>
  C10, as the code has it. With omitEmptyMeta set, when the loop of publish reaches a
  record with nil metadata that the suspicious filter does not pass over, the records
  before it having been handled without an error, publish returns the decode error
  there: the calls made are those for the records before it, and none for the record or
  for those after it. A run that had saved these records ends failed, with the error
  logged and captured after the events of publish.
\<close>

theorem publish_nil_meta_decode_error:
  assumes meta: "omitEmptyMeta job"
    and nil: "MetaData n = None"
    and not_skipped: "\<not> (dbIsSuspicious n \<and> omitSuspicious job)"
    and before: "publish job w4 pre = (Inr pre', w5, evs5)"
  shows "publish job w4 (pre @ n # post) =
       (Inl (Error ''[Job.publish][json.Unmarshal] meta: unexpected end of JSON input''),
        w5, evs5) \<and>
     (\<forall>w0 news ferr w1 uniqueNews w2 evs2 composedNews w3 evs3 evs4.
        GetLatestNews (journalist job) w0 (until job) = ((news, ferr), w1) \<and> news \<noteq> [] \<and>
        removeDuplicates job w1 news = (Inr uniqueNews, w2, evs2) \<and> uniqueNews \<noteq> [] \<and>
        composeNews job w2 uniqueNews = (Inr composedNews, w3, evs3) \<and>
        saveNews job w3 \<lparr>jdNews = uniqueNews, jdComposedNews = composedNews\<rparr> =
          (Inr (pre @ n # post), w4, evs4) \<longrightarrow>
        Run job w0 =
          (End_Failed, w5,
           EvGetLatestNews (until job) #
             (case ferr of
                None \<Rightarrow> []
              | Some e \<Rightarrow> [EvLogInfo (log_tag job ''GetLatestNews'') e,
                            EvCaptureException e])
             @ evs2 @ evs3 @ evs4 @ evs5
             @ [EvLogWarn (log_tag job ''publish'')
                  ''[Job.publish][json.Unmarshal] meta: unexpected end of JSON input'',
                EvCaptureException
                  ''[Job.publish][json.Unmarshal] meta: unexpected end of JSON input'']))"
proof -
  have "publish_one job w5 n =
     (Inl (Error ''[Job.publish][json.Unmarshal] meta: unexpected end of JSON input''), w5, [])"
    using meta nil not_skipped by (simp add: publish_one_def json_Unmarshal_meta_def)
  then have stage: "publish job w4 (pre @ n # post) =
       (Inl (Error ''[Job.publish][json.Unmarshal] meta: unexpected end of JSON input''),
        w5, evs5)"
    using before by (simp add: publish_append)
  then show ?thesis
    by (simp add: Run_def stage_failed_def)
qed

theorem publish_nil_meta_decode_error_witness:
  "publish ((demo_job [] 0)\<lparr>omitSuspicious := False\<rparr>) 3 [demo_dbA, demo_dbB, demo_dbC] =
     (Inl (Error ''[Job.publish][json.Unmarshal] meta: unexpected end of JSON input''), 3,
      [EvPublish (formatNews (demo_job [] 0) demo_dbA) (Inr ''msg'')]) \<and>
   Run ((demo_job [] 0)\<lparr>omitSuspicious := False\<rparr>) 0 =
     (End_Failed, 3,
      [EvGetLatestNews demo_now,
       EvFindAllByHashes [''a1'', ''b2'', ''c3''],
       EvCompose [demo_A, demo_B, demo_C],
       EvChatCompletion (OpenAI_request ''compose'' ''a1b2c3''),
       EvCreate demo_dbA None, EvCreate demo_dbB None, EvCreate demo_dbC None,
       EvPublish (formatNews (demo_job [] 0) demo_dbA) (Inr ''msg''),
       EvLogWarn ''[Run.demo][publish]''
         ''[Job.publish][json.Unmarshal] meta: unexpected end of JSON input'',
       EvCaptureException
         ''[Job.publish][json.Unmarshal] meta: unexpected end of JSON input''])"
proof -
  let ?job = "(demo_job [] 0)\<lparr>omitSuspicious := False\<rparr>"
  let ?news = "[demo_A, demo_B, demo_C]"
  let ?composed = "[Some demo_composed_A, Some demo_composed_C]"
  let ?text = "formatNews (demo_job [] 0) demo_dbA"
  have meta: "omitEmptyMeta ?job" by (simp add: demo_job_def)
  have nil: "MetaData demo_dbB = None" by (simp add: demo_dbB_def)
  have not_skipped: "\<not> (dbIsSuspicious demo_dbB \<and> omitSuspicious ?job)" by simp
  have before: "publish ?job 3 [demo_dbA] =
      (Inr [demo_published demo_dbA], 3, [EvPublish ?text (Inr ''msg'')])"
    by (simp add: demo_defs demo_db_defs publish_one_def formatNews_def MetaData_String_def
        json_Unmarshal_meta_def)
  have fetch: "GetLatestNews (journalist ?job) 0 (until ?job) = ((?news, None), 0)"
    by (simp add: demo_job_def demo_journalist_def)
  have dedupe: "removeDuplicates ?job 0 ?news =
      (Inr ?news, 0, [EvFindAllByHashes [''a1'', ''b2'', ''c3'']])"
    by (simp add: demo_defs removeDuplicates_def)
  have compose: "composeNews ?job 0 ?news =
      (Inr ?composed, 0,
       [EvCompose ?news, EvChatCompletion (OpenAI_request ''compose'' ''a1b2c3'')])"
    by (simp add: demo_defs composeNews_def Compose_def)
  have saved: "saveNews ?job 0 \<lparr>jdNews = ?news, jdComposedNews = ?composed\<rparr> =
      (Inr ([demo_dbA] @ demo_dbB # [demo_dbC]), 3,
       [EvCreate demo_dbA None, EvCreate demo_dbB None, EvCreate demo_dbC None])"
    by (simp add: demo_defs demo_db_defs saveNews_def newDBNews_def)
  note inst = publish_nil_meta_decode_error [OF meta nil not_skipped before, of "[demo_dbC]"]
  from inst have stage: "publish ?job 3 [demo_dbA, demo_dbB, demo_dbC] =
     (Inl (Error ''[Job.publish][json.Unmarshal] meta: unexpected end of JSON input''), 3,
      [EvPublish ?text (Inr ''msg'')])"
    by simp
  from inst [THEN conjunct2, rule_format, of 0 ?news None 0 ?news 0 _ ?composed 0 _ _]
    fetch dedupe compose saved
  have "Run ?job 0 =
     (End_Failed, 3,
      EvGetLatestNews (until ?job) # [] @ [EvFindAllByHashes [''a1'', ''b2'', ''c3'']]
      @ [EvCompose ?news, EvChatCompletion (OpenAI_request ''compose'' ''a1b2c3'')]
      @ [EvCreate demo_dbA None, EvCreate demo_dbB None, EvCreate demo_dbC None]
      @ [EvPublish ?text (Inr ''msg'')]
      @ [EvLogWarn (log_tag ?job ''publish'')
           ''[Job.publish][json.Unmarshal] meta: unexpected end of JSON input'',
         EvCaptureException
           ''[Job.publish][json.Unmarshal] meta: unexpected end of JSON input''])"
    by simp
  then have "Run ?job 0 =
     (End_Failed, 3,
      [EvGetLatestNews demo_now,
       EvFindAllByHashes [''a1'', ''b2'', ''c3''],
       EvCompose ?news,
       EvChatCompletion (OpenAI_request ''compose'' ''a1b2c3''),
       EvCreate demo_dbA None, EvCreate demo_dbB None, EvCreate demo_dbC None,
       EvPublish ?text (Inr ''msg''),
       EvLogWarn ''[Run.demo][publish]''
         ''[Job.publish][json.Unmarshal] meta: unexpected end of JSON input'',
       EvCaptureException
         ''[Job.publish][json.Unmarshal] meta: unexpected end of JSON input''])"
    by (simp add: log_tag_def jobName_def demo_job_def demo_journalist_def)
  with stage show ?thesis by simp
qed

end
